theory Spec2Isabelle
  imports Complex_Main "HOL-Library.Sublist" "HOL-Library.AList"
begin

section \<open>Python values used by \<open>proxy.py\<close>\<close>

text \<open>
  Exceptions are values. \<open>JSONDecodeError\<close> and \<open>UnicodeDecodeError\<close> are subclasses of
  \<open>ValueError\<close> in Python, \<open>RequestError\<close> is \<open>httpx.RequestError\<close>, and \<open>Exception\<close>
  stands for a bare \<open>Exception(...)\<close>.
\<close>

datatype exn =
    RequestError
  | JSONDecodeError
  | UnicodeDecodeError
  | ValueError
  | TypeError
  | AttributeError
  | KeyError
  | Exception

definition is_ValueError :: "exn \<Rightarrow> bool" where
  "is_ValueError e = (e = ValueError \<or> e = JSONDecodeError \<or> e = UnicodeDecodeError)"

text \<open>
  A parsed JSON document, as \<open>json.loads\<close> returns it. A \<open>dict\<close> is an association list
  (insertion order is kept, as in Python); lookups take the first entry of a key, and a
  \<open>dict\<close> of Python has each key once. A \<open>float\<close> is a real number: only its truth value
  (non-zero) is ever inspected by the proxy. A \<open>str\<close> is the list of its UTF-8 bytes.
\<close>

datatype json =
    JNull
  | JBool bool
  | JInt int
  | JFloat real
  | JStr string
  | JList "json list"
  | JDict "(string \<times> json) list"

type_synonym pydict = "(string \<times> json) list"

text \<open>
  The library functions the proxy calls but does not define: \<open>json.loads\<close> (on a \<open>str\<close>;
  \<open>None\<close> is \<open>JSONDecodeError\<close>), \<open>json.dumps\<close>, the builtin \<open>int\<close> on a \<open>str\<close>
  (\<open>None\<close> is \<open>ValueError\<close>) and \<open>str\<close> of an exception.
\<close>

record pylib =
  json_loads :: "string \<Rightarrow> json option"
  json_dumps :: "json \<Rightarrow> string"
  int_of_str :: "string \<Rightarrow> int option"
  str_of_exn :: "exn \<Rightarrow> string"

subsection \<open>Truth values, \<open>isinstance\<close>, \<open>in\<close>, subscripts and \<open>.get\<close>\<close>

fun truthy :: "json \<Rightarrow> bool" where
  "truthy JNull = False"
| "truthy (JBool b) = b"
| "truthy (JInt i) = (i \<noteq> 0)"
| "truthy (JFloat f) = (f \<noteq> 0)"
| "truthy (JStr s) = (s \<noteq> [])"
| "truthy (JList xs) = (xs \<noteq> [])"
| "truthy (JDict d) = (d \<noteq> [])"


fun is_list :: "json \<Rightarrow> bool" where
  "is_list (JList xs) = True"
| "is_list v = False"

fun is_str :: "json \<Rightarrow> bool" where
  "is_str (JStr s) = True"
| "is_str v = False"

fun is_bool :: "json \<Rightarrow> bool" where
  "is_bool (JBool b) = True"
| "is_bool v = False"

text \<open>\<open>needle in hay\<close> on two strings: the substring test.\<close>

fun str_contains :: "string \<Rightarrow> string \<Rightarrow> bool" where
  "str_contains needle [] = (needle = [])"
| "str_contains needle (c # cs) = (prefix needle (c # cs) \<or> str_contains needle cs)"

definition has_key :: "pydict \<Rightarrow> string \<Rightarrow> bool" where
  "has_key d k = (map_of d k \<noteq> None)"

definition dict_get :: "pydict \<Rightarrow> string \<Rightarrow> json \<Rightarrow> json" where
  "dict_get d k dflt = (case map_of d k of Some v \<Rightarrow> v | None \<Rightarrow> dflt)"

text \<open>\<open>d.pop(k, None)\<close> and \<open>d[k] = v\<close> on a \<open>dict\<close>.\<close>

definition dict_pop :: "string \<Rightarrow> pydict \<Rightarrow> pydict" where
  "dict_pop k d = AList.delete k d"

definition dict_set :: "string \<Rightarrow> json \<Rightarrow> pydict \<Rightarrow> pydict" where
  "dict_set k v d = AList.update k v d"

text \<open>
  \<open>k in v\<close> for a string \<open>k\<close>: a key test on a \<open>dict\<close>, a membership test on a \<open>list\<close>, a
  substring test on a \<open>str\<close>, and \<open>TypeError\<close> on \<open>None\<close>, a \<open>bool\<close> or a number.
\<close>

fun py_in :: "string \<Rightarrow> json \<Rightarrow> exn + bool" where
  "py_in k (JDict d) = Inr (has_key d k)"
| "py_in k (JList xs) = Inr (JStr k \<in> set xs)"
| "py_in k (JStr s) = Inr (str_contains k s)"
| "py_in k v = Inl TypeError"

text \<open>\<open>v[k]\<close> and \<open>v[k] = x\<close> for a string \<open>k\<close>: only a \<open>dict\<close> takes a string subscript.\<close>

fun py_getitem :: "json \<Rightarrow> string \<Rightarrow> exn + json" where
  "py_getitem (JDict d) k = (case map_of d k of Some v \<Rightarrow> Inr v | None \<Rightarrow> Inl KeyError)"
| "py_getitem v k = Inl TypeError"

fun py_setitem :: "json \<Rightarrow> string \<Rightarrow> json \<Rightarrow> exn + json" where
  "py_setitem (JDict d) k x = Inr (JDict (dict_set k x d))"
| "py_setitem v k x = Inl TypeError"

text \<open>\<open>v.get(k, dflt)\<close>: only a \<open>dict\<close> has the method.\<close>

fun py_get :: "json \<Rightarrow> string \<Rightarrow> json \<Rightarrow> exn + json" where
  "py_get (JDict d) k dflt = Inr (dict_get d k dflt)"
| "py_get v k dflt = Inl AttributeError"

subsection \<open>Bytes and text\<close>

text \<open>
  \<open>bytes.decode("utf-8")\<close> is strict: it raises \<open>UnicodeDecodeError\<close> unless the bytes are
  well-formed UTF-8 (no overlong form, no surrogate, nothing above U+10FFFF). Text is kept
  as its UTF-8 bytes, so \<open>str.encode("utf-8")\<close> gives the bytes back.
\<close>

definition cont :: "char \<Rightarrow> bool" where
  "cont c = (0x80 \<le> (of_char c :: nat) \<and> (of_char c :: nat) \<le> 0xBF)"

definition byte_in :: "nat \<Rightarrow> nat \<Rightarrow> char \<Rightarrow> bool" where
  "byte_in lo hi c = (lo \<le> (of_char c :: nat) \<and> (of_char c :: nat) \<le> hi)"

fun utf8_valid :: "string \<Rightarrow> bool" where
  "utf8_valid [] = True"
| "utf8_valid (b # bs) = (let n = (of_char b :: nat) in
     if n < 0x80 then utf8_valid bs
     else if 0xC2 \<le> n \<and> n \<le> 0xDF then
       (case bs of c1 # r \<Rightarrow> cont c1 \<and> utf8_valid r | _ \<Rightarrow> False)
     else if 0xE0 \<le> n \<and> n \<le> 0xEF then
       (case bs of c1 # c2 # r \<Rightarrow>
          (if n = 0xE0 then byte_in 0xA0 0xBF c1
           else if n = 0xED then byte_in 0x80 0x9F c1 else cont c1)
          \<and> cont c2 \<and> utf8_valid r
        | _ \<Rightarrow> False)
     else if 0xF0 \<le> n \<and> n \<le> 0xF4 then
       (case bs of c1 # c2 # c3 # r \<Rightarrow>
          (if n = 0xF0 then byte_in 0x90 0xBF c1
           else if n = 0xF4 then byte_in 0x80 0x8F c1 else cont c1)
          \<and> cont c2 \<and> cont c3 \<and> utf8_valid r
        | _ \<Rightarrow> False)
     else False)"

definition utf8_decode :: "string \<Rightarrow> exn + string" where
  "utf8_decode b = (if utf8_valid b then Inr b else Inl UnicodeDecodeError)"

definition utf8_encode :: "string \<Rightarrow> string" where
  "utf8_encode t = t"

text \<open>\<open>str(n)\<close> for a length \<open>n\<close>: the decimal digits.\<close>

function str_of_nat :: "nat \<Rightarrow> string" where
  "str_of_nat n =
     (if n < 10 then [''0123456789'' ! n]
      else str_of_nat (n div 10) @ [''0123456789'' ! (n mod 10)])"
  by pat_completeness auto
termination
  by (relation "measure (\<lambda>n. n)") auto

section \<open>The retry engine: \<open>retry_with_backoff\<close>\<close>

text \<open>
  An upstream response as the engine sees it: the status, the headers (names in lower
  case, as \<open>httpx\<close> keeps them), the result of \<open>aread()\<close> (the body, or the exception the
  read raises) and the chunks of \<open>aiter_bytes()\<close>.
\<close>

record response =
  status_code :: int
  headers :: "(string \<times> string) list"
  aread :: "exn + string"
  aiter_bytes :: "string list"

text \<open>What one call of \<open>func()\<close> does: return a response or raise.\<close>

datatype outcome = Returns response | Raises exn

text \<open>The configuration read from the environment (lines 24--28).\<close>

record config =
  MAX_RETRIES :: int
  BASE_RETRY_DELAY :: real
  RATE_LIMIT_WAIT :: int

definition default_config :: config where
  "default_config = \<lparr>MAX_RETRIES = 5, BASE_RETRY_DELAY = 1, RATE_LIMIT_WAIT = 30\<rparr>"

text \<open>
  What the engine reads from outside at attempt \<open>k\<close>: \<open>int(time.time())\<close> and
  \<open>random.uniform(0, 1)\<close>. Delays are real numbers: the rounding and the range of
  Python's floats are not modelled.
\<close>

record env =
  clock :: "nat \<Rightarrow> int"
  jitter :: "nat \<Rightarrow> real"

text \<open>Lines 88--110: the wait computed from a header value that \<open>int\<close> accepted.\<close>

definition reset_wait :: "int \<Rightarrow> int \<Rightarrow> int" where
  "reset_wait reset_time current_time =
     (let wait_time = max 1 (reset_time - current_time);
          wait_time =
            (if reset_time > current_time * 1000 then
               (let reset_time = reset_time div 1000 in max 1 (reset_time - current_time))
             else if reset_time < 3600 then max 1 reset_time
             else max 1 (reset_time - current_time))
      in min wait_time 3600)"

text \<open>
  Lines 83--122: the header branch. \<open>None\<close> when the header is absent or empty, or when
  \<open>int\<close> raises \<open>ValueError\<close> (caught at line 118).
\<close>

definition header_wait :: "pylib \<Rightarrow> response \<Rightarrow> int \<Rightarrow> int option" where
  "header_wait L r current_time =
     (case map_of (headers r) ''x-ratelimit-reset-requests'' of
        None \<Rightarrow> None
      | Some reset_requests_header \<Rightarrow>
          if reset_requests_header = [] then None
          else (case int_of_str L reset_requests_header of
                  None \<Rightarrow> None
                | Some reset_time \<Rightarrow> Some (reset_wait reset_time current_time)))"

definition backoff :: "env \<Rightarrow> real \<Rightarrow> nat \<Rightarrow> real" where
  "backoff E base_delay attempt = base_delay * 2 ^ attempt + jitter E attempt"

text \<open>How one pass of the loop body ends: \<open>return\<close>, \<open>raise\<close>, or a sleep and \<open>continue\<close>.\<close>

datatype step = Return response | Reraise exn | SleepContinue real

text \<open>
  Lines 65--131, the \<open>try\<close> block run on a 429: the exception it raises, or how it ends
  (\<open>None\<close>: it falls through to \<open>return response\<close> at line 137).
\<close>

definition process_429 ::
  "pylib \<Rightarrow> config \<Rightarrow> env \<Rightarrow> int \<Rightarrow> real \<Rightarrow> nat \<Rightarrow> response \<Rightarrow> exn + real option" where
  "process_429 L C E max_retries base_delay attempt r =
     (case aread r of
        Inl e \<Rightarrow> Inl e
      | Inr error_content \<Rightarrow>
          (case utf8_decode error_content of
             Inl e \<Rightarrow> Inl e
           | Inr error_text \<Rightarrow>
               if str_contains ''Too many failed attempts'' error_text then
                 (if int attempt < max_retries then Inr (Some (real_of_int (RATE_LIMIT_WAIT C)))
                  else Inr None)
               else
                 (case header_wait L r (clock E attempt) of
                    Some wait_time \<Rightarrow>
                      if int attempt < max_retries then Inr (Some (real_of_int wait_time))
                      else Inr None
                  | None \<Rightarrow>
                      if int attempt < max_retries
                      then Inr (Some (backoff E base_delay attempt))
                      else Inr None)))"

text \<open>Lines 58--170: the body of the \<open>for\<close> loop at one attempt.\<close>

definition attempt_body ::
  "pylib \<Rightarrow> config \<Rightarrow> env \<Rightarrow> (nat \<Rightarrow> outcome) \<Rightarrow> int \<Rightarrow> real \<Rightarrow> nat \<Rightarrow> step" where
  "attempt_body L C E func max_retries base_delay attempt =
     (case func attempt of
        Raises e \<Rightarrow>
          if e = RequestError then
            (if int attempt < max_retries then SleepContinue (backoff E base_delay attempt)
             else Reraise e)
          else Reraise e
      | Returns r \<Rightarrow>
          if status_code r = 429 then
            (case process_429 L C E max_retries base_delay attempt r of
               Inl e \<Rightarrow> Return r
             | Inr None \<Rightarrow> Return r
             | Inr (Some delay) \<Rightarrow> SleepContinue delay)
          else if status_code r \<ge> 500 then
            (if int attempt < max_retries then SleepContinue (backoff E base_delay attempt)
             else Return r)
          else Return r)"

text \<open>
  What a run of the engine leaves behind: the response returned or the exception raised,
  the sleeps in order, and the number of calls of \<open>func\<close>.
\<close>

record run =
  result :: "exn + response"
  sleeps :: "real list"
  calls :: nat

function retry_loop ::
  "pylib \<Rightarrow> config \<Rightarrow> env \<Rightarrow> (nat \<Rightarrow> outcome) \<Rightarrow> int \<Rightarrow> real \<Rightarrow> nat \<Rightarrow> real list \<Rightarrow> run" where
  "retry_loop L C E func max_retries base_delay attempt slept =
     (if int attempt \<le> max_retries then
        (case attempt_body L C E func max_retries base_delay attempt of
           Return r \<Rightarrow> \<lparr>result = Inr r, sleeps = slept, calls = Suc attempt\<rparr>
         | Reraise e \<Rightarrow> \<lparr>result = Inl e, sleeps = slept, calls = Suc attempt\<rparr>
         | SleepContinue delay \<Rightarrow>
             retry_loop L C E func max_retries base_delay (Suc attempt) (slept @ [delay]))
      else \<lparr>result = Inl Exception, sleeps = slept, calls = attempt\<rparr>)"
  by pat_completeness auto
termination
  by (relation "measure (\<lambda>(L, C, E, func, max_retries, base_delay, attempt, slept).
        nat (max_retries + 1 - int attempt))") auto

definition retry_with_backoff ::
  "pylib \<Rightarrow> config \<Rightarrow> env \<Rightarrow> (nat \<Rightarrow> outcome) \<Rightarrow> int option \<Rightarrow> real option \<Rightarrow> run" where
  "retry_with_backoff L C E func max_retries base_delay =
     (let max_retries = (case max_retries of None \<Rightarrow> MAX_RETRIES C | Some n \<Rightarrow> n);
          base_delay = (case base_delay of None \<Rightarrow> BASE_RETRY_DELAY C | Some d \<Rightarrow> d)
      in retry_loop L C E func max_retries base_delay 0 [])"

text \<open>
  A lockout response: a 429 whose body can be read and decoded and holds the phrase
  tested at line 68.
\<close>

definition lockout :: "response \<Rightarrow> bool" where
  "lockout r = (status_code r = 429 \<and>
     (case aread r of Inl e \<Rightarrow> False
      | Inr b \<Rightarrow> utf8_valid b \<and> str_contains ''Too many failed attempts'' b))"

section \<open>Tool-call argument coercion\<close>

definition and_then :: "exn + 'a \<Rightarrow> ('a \<Rightarrow> exn + 'b) \<Rightarrow> exn + 'b" where
  "and_then r f = (case r of Inl e \<Rightarrow> Inl e | Inr v \<Rightarrow> f v)"

text \<open>A \<open>for\<close> loop over a list whose body may raise: it stops at the first exception.\<close>

fun for_each :: "('a \<Rightarrow> exn + 'b) \<Rightarrow> 'a list \<Rightarrow> exn + 'b list" where
  "for_each f [] = Inr []"
| "for_each f (x # xs) =
     and_then (f x) (\<lambda>y. and_then (for_each f xs) (\<lambda>ys. Inr (y # ys)))"

text \<open>
  The conversion of one field, as written three times in the source (lines 325--340,
  532--569 and 694--721): \<open>if key in args_dict and isinstance(args_dict[key], str):
  args_dict[key] = int(args_dict[key]); modified = True\<close>. The parsed arguments need not
  be a \<open>dict\<close>, so each operation may raise.
\<close>

definition coerce_field :: "pylib \<Rightarrow> string \<Rightarrow> json \<times> bool \<Rightarrow> exn + json \<times> bool" where
  "coerce_field L key st =
     (case st of (args_dict, modified) \<Rightarrow>
        and_then (py_in key args_dict) (\<lambda>present.
          if present then
            and_then (py_getitem args_dict key) (\<lambda>v.
              case v of
                JStr s \<Rightarrow>
                  (case int_of_str L s of
                     None \<Rightarrow> Inl ValueError
                   | Some n \<Rightarrow>
                       and_then (py_setitem args_dict key (JInt n)) (\<lambda>args_dict'.
                         Inr (args_dict', True)))
              | _ \<Rightarrow> Inr (args_dict, modified))
          else Inr (args_dict, modified)))"

definition coerce_args :: "pylib \<Rightarrow> json \<Rightarrow> exn + json \<times> bool" where
  "coerce_args L args_dict =
     and_then (coerce_field L ''start_line'' (args_dict, False))
       (coerce_field L ''end_line'')"

text \<open>
  \<open>tool_call.get("function", {}).get(k, dflt) if "function" in tool_call else dflt\<close>
  (lines 293--306, 499--514, 668--681).
\<close>

definition tc_field :: "pydict \<Rightarrow> string \<Rightarrow> json \<Rightarrow> exn + json" where
  "tc_field tool_call k dflt =
     (if has_key tool_call ''function''
      then py_get (dict_get tool_call ''function'' (JDict [])) k dflt
      else Inr dflt)"

text \<open>\<open>tool_call["function"]["arguments"] = v\<close>.\<close>

definition set_arguments :: "pydict \<Rightarrow> json \<Rightarrow> exn + pydict" where
  "set_arguments tool_call v =
     and_then (py_getitem (JDict tool_call) ''function'') (\<lambda>fn.
       and_then (py_setitem fn ''arguments'' v) (\<lambda>fn'.
         Inr (dict_set ''function'' fn' tool_call)))"

text \<open>
  The \<open>try\<close> statement that transforms the arguments of a \<open>read_file\<close> tool call (lines
  314--367, 523--599, 689--740), with its handler for \<open>(json.JSONDecodeError, ValueError)\<close>.
  The result is the exception that escapes the handler, \<open>None\<close> when the tool call is left
  as it was, or the updated tool call. \<open>json.loads\<close> raises \<open>TypeError\<close> on a value that is
  not a \<open>str\<close>. The three copies differ in their logging only; \<open>logs\<close> marks the copy of
  the request rewriter, whose logging calls \<open>args_dict.get\<close> (line 317) and, after an
  update, parses the new string and calls \<open>verification.get\<close> (lines 360--362).
\<close>

definition transform_read_file :: "pylib \<Rightarrow> bool \<Rightarrow> pydict \<Rightarrow> json \<Rightarrow> exn + pydict option" where
  "transform_read_file L logs tool_call tc_args =
     (case tc_args of
        JStr s \<Rightarrow>
          (case json_loads L s of
             None \<Rightarrow> Inr None
           | Some args_dict \<Rightarrow>
               and_then (if logs then py_get args_dict ''start_line'' JNull else Inr JNull) (\<lambda>_.
                 case coerce_args L args_dict of
                   Inl e \<Rightarrow> if is_ValueError e then Inr None else Inl e
                 | Inr (args_dict', modified) \<Rightarrow>
                     if modified then
                       and_then (set_arguments tool_call (JStr (json_dumps L args_dict')))
                         (\<lambda>tool_call'.
                            if logs then
                              (case json_loads L (json_dumps L args_dict') of
                                 None \<Rightarrow> Inr (Some tool_call')
                               | Some verification \<Rightarrow>
                                   and_then (py_get verification ''start_line'' JNull)
                                     (\<lambda>_. Inr (Some tool_call')))
                            else Inr (Some tool_call'))
                     else Inr None))
      | _ \<Rightarrow> Inl TypeError)"

text \<open>
  One tool call \<open>dict\<close>: reading \<open>tc_name\<close> and \<open>tc_args\<close>, then the guard
  \<open>tc_name == "read_file" and tc_args and "function" in tool_call\<close> around the
  transformation. \<open>dflt_name\<close> is \<open>"unknown"\<close> at lines 295 and 670, \<open>""\<close> at line 502.
\<close>

definition coerce_tool_call :: "pylib \<Rightarrow> bool \<Rightarrow> json \<Rightarrow> pydict \<Rightarrow> exn + pydict option" where
  "coerce_tool_call L logs dflt_name tool_call =
     and_then (tc_field tool_call ''name'' dflt_name) (\<lambda>tc_name.
       and_then (tc_field tool_call ''arguments'' (JStr [])) (\<lambda>tc_args.
         if tc_name = JStr ''read_file'' \<and> truthy tc_args \<and> has_key tool_call ''function''
         then transform_read_file L logs tool_call tc_args
         else Inr None))"

text \<open>One element of a \<open>tool_calls\<close> list: \<open>if isinstance(tool_call, dict): ...\<close>.\<close>

definition apply_tool_call :: "pylib \<Rightarrow> bool \<Rightarrow> json \<Rightarrow> json \<Rightarrow> exn + json" where
  "apply_tool_call L logs dflt_name tc =
     (case tc of
        JDict tool_call \<Rightarrow>
          and_then (coerce_tool_call L logs dflt_name tool_call) (\<lambda>r.
            case r of None \<Rightarrow> Inr tc | Some tool_call' \<Rightarrow> Inr (JDict tool_call'))
      | _ \<Rightarrow> Inr tc)"

section \<open>The request payload rewriter (\<open>proxy_request\<close>, lines 211--426)\<close>

text \<open>\<open>body_json.pop(param, None)\<close>: \<open>list.pop\<close> takes one argument, other values have no \<open>pop\<close>.\<close>

definition pop_param :: "string \<Rightarrow> json \<Rightarrow> exn + json" where
  "pop_param k v =
     (case v of
        JDict d \<Rightarrow> Inr (JDict (dict_pop k d))
      | JList xs \<Rightarrow> Inl TypeError
      | _ \<Rightarrow> Inl AttributeError)"

text \<open>Lines 225--228.\<close>

definition drop_parallel_tool_calls :: "pydict \<Rightarrow> pydict" where
  "drop_parallel_tool_calls d =
     (if has_key d ''parallel_tool_calls''
      then (if \<not> is_bool (dict_get d ''parallel_tool_calls'' JNull)
            then dict_pop ''parallel_tool_calls'' d else d)
      else d)"

text \<open>
  Lines 231--265, the validation of the tool-call sequence. It changes nothing; it can
  only raise, when a value that is put into or looked up in the \<open>set\<close> of ids is a
  \<open>list\<close> or a \<open>dict\<close> (unhashable).
\<close>

fun hashable :: "json \<Rightarrow> bool" where
  "hashable (JList xs) = False"
| "hashable (JDict d) = False"
| "hashable v = True"

definition each_ok :: "('a \<Rightarrow> exn + unit) \<Rightarrow> 'a list \<Rightarrow> exn + unit" where
  "each_ok f xs = and_then (for_each f xs) (\<lambda>_. Inr ())"

definition collect_id :: "json \<Rightarrow> exn + unit" where
  "collect_id tool_call =
     (case tool_call of
        JDict t \<Rightarrow>
          (case map_of t ''id'' of
             Some i \<Rightarrow> if hashable i then Inr () else Inl TypeError
           | None \<Rightarrow> Inr ())
      | _ \<Rightarrow> Inr ())"

definition collect_ids :: "json \<Rightarrow> exn + unit" where
  "collect_ids msg =
     (case msg of
        JDict m \<Rightarrow>
          (case map_of m ''tool_calls'' of
             Some (JList tool_calls) \<Rightarrow> each_ok collect_id tool_calls
           | _ \<Rightarrow> Inr ())
      | _ \<Rightarrow> Inr ())"

definition check_item :: "json \<Rightarrow> exn + unit" where
  "check_item item =
     (case item of
        JDict i \<Rightarrow>
          if dict_get i ''type'' JNull = JStr ''tool_result'' then
            (let tool_use_id = dict_get i ''tool_use_id'' JNull in
             if truthy tool_use_id
             then (if hashable tool_use_id then Inr () else Inl TypeError)
             else Inr ())
          else Inr ()
      | _ \<Rightarrow> Inr ())"

definition check_results :: "json \<Rightarrow> exn + unit" where
  "check_results msg =
     (case msg of
        JDict m \<Rightarrow>
          (case map_of m ''content'' of
             Some (JList content_items) \<Rightarrow> each_ok check_item content_items
           | _ \<Rightarrow> Inr ())
      | _ \<Rightarrow> Inr ())"

definition validate_sequence :: "pydict \<Rightarrow> exn + unit" where
  "validate_sequence d =
     (case map_of d ''messages'' of
        Some (JList messages) \<Rightarrow>
          and_then (each_ok collect_ids messages) (\<lambda>_. each_ok check_results messages)
      | _ \<Rightarrow> Inr ())"

text \<open>
  Lines 268--278, the logging of the tools. \<open>enumerate\<close> iterates over a \<open>list\<close>, over the
  keys of a \<open>dict\<close> and over the characters of a \<open>str\<close>, and raises \<open>TypeError\<close> on any
  other value; \<open>tool["function"].get\<close> needs a \<open>dict\<close>.
\<close>

definition log_tool :: "json \<Rightarrow> exn + unit" where
  "log_tool tool =
     (case tool of
        JDict t \<Rightarrow>
          if has_key t ''function''
          then and_then (py_get (dict_get t ''function'' JNull) ''name'' (JStr ''unknown''))
                 (\<lambda>_. Inr ())
          else Inr ()
      | _ \<Rightarrow> Inr ())"

definition log_tools :: "pydict \<Rightarrow> exn + unit" where
  "log_tools d =
     (if has_key d ''tools'' then
        (case dict_get d ''tools'' (JList []) of
           JList tools \<Rightarrow> each_ok log_tool tools
         | JDict ts \<Rightarrow> Inr ()
         | JStr s \<Rightarrow> Inr ()
         | _ \<Rightarrow> Inl TypeError)
      else Inr ())"

text \<open>
  Lines 376--394, the logging of a tool result. \<open>len\<close> raises \<open>TypeError\<close> on a number or a
  \<open>bool\<close>; a \<open>dict\<close> of more than 500 entries cannot be sliced.
\<close>

definition log_tool_result :: "json \<Rightarrow> exn + unit" where
  "log_tool_result msg =
     (case msg of
        JDict m \<Rightarrow>
          if dict_get m ''role'' JNull = JStr ''tool'' then
            (let tool_content = dict_get m ''content'' (JStr []) in
             if truthy tool_content then
               (case tool_content of
                  JStr s \<Rightarrow> Inr ()
                | JList xs \<Rightarrow> Inr ()
                | JDict c \<Rightarrow> if length c > 500 then Inl TypeError else Inr ()
                | _ \<Rightarrow> Inl TypeError)
             else Inr ())
          else Inr ()
      | _ \<Rightarrow> Inr ())"

text \<open>Lines 282--394: one pass of the loop over the messages.\<close>

definition request_message :: "pylib \<Rightarrow> json \<Rightarrow> exn + json" where
  "request_message L msg =
     and_then
       (case msg of
          JDict m \<Rightarrow>
            (case map_of m ''tool_calls'' of
               Some (JList tool_calls) \<Rightarrow>
                 if tool_calls \<noteq> [] then
                   and_then (for_each (apply_tool_call L True (JStr ''unknown'')) tool_calls)
                     (\<lambda>tool_calls'. Inr (JDict (dict_set ''tool_calls'' (JList tool_calls') m)))
                 else Inr msg
             | _ \<Rightarrow> Inr msg)
        | _ \<Rightarrow> Inr msg)
       (\<lambda>msg'. and_then (log_tool_result msg) (\<lambda>_. Inr msg'))"

definition rewrite_messages :: "pylib \<Rightarrow> pydict \<Rightarrow> exn + pydict" where
  "rewrite_messages L d =
     (case map_of d ''messages'' of
        Some (JList messages) \<Rightarrow>
          and_then (for_each (request_message L) messages)
            (\<lambda>messages'. Inr (dict_set ''messages'' (JList messages') d))
      | _ \<Rightarrow> Inr d)"

text \<open>
  Lines 216--397, the \<open>try\<close> block of the chat-completions rewrite up to the new body:
  the document that is serialised, or the exception that reaches line 404.
\<close>

definition chat_document :: "pylib \<Rightarrow> string \<Rightarrow> exn + pydict" where
  "chat_document L body =
     and_then (utf8_decode body) (\<lambda>text.
       case json_loads L text of
         None \<Rightarrow> Inl JSONDecodeError
       | Some body_json \<Rightarrow>
           and_then (pop_param ''prompt_cache_key'' body_json) (\<lambda>b1.
             and_then (pop_param ''logprobs'' b1) (\<lambda>b2.
               and_then (pop_param ''top_logprobs'' b2) (\<lambda>b3.
                 case b3 of
                   JDict d3 \<Rightarrow>
                     (let d = drop_parallel_tool_calls d3 in
                      and_then (validate_sequence d) (\<lambda>_.
                        and_then (log_tools d) (\<lambda>_. rewrite_messages L d)))
                 | _ \<Rightarrow> Inl AttributeError))))"

definition chat_rewrite :: "pylib \<Rightarrow> string \<Rightarrow> exn + string" where
  "chat_rewrite L body =
     and_then (chat_document L body) (\<lambda>d. Inr (utf8_encode (json_dumps L (JDict d))))"

type_synonym hdrs = "(string \<times> string) list"

text \<open>Lines 212--405: on an exception, \<open>body\<close> and \<open>headers\<close> are as they were.\<close>

definition rewrite_chat :: "pylib \<Rightarrow> string \<Rightarrow> hdrs \<Rightarrow> string \<times> hdrs" where
  "rewrite_chat L body hs =
     (case chat_rewrite L body of
        Inl e \<Rightarrow> (body, hs)
      | Inr body' \<Rightarrow> (body', AList.update ''content-length'' (str_of_nat (length body')) hs))"

text \<open>Lines 409--420, the \<open>try\<close> block of the embeddings rewrite.\<close>

definition embeddings_rewrite :: "pylib \<Rightarrow> string \<Rightarrow> exn + string" where
  "embeddings_rewrite L body =
     and_then (utf8_decode body) (\<lambda>text.
       case json_loads L text of
         None \<Rightarrow> Inl JSONDecodeError
       | Some body_json \<Rightarrow>
           and_then (py_get body_json ''encoding_format'' JNull) (\<lambda>fmt.
             and_then
               (if fmt = JStr ''base64''
                then py_setitem body_json ''encoding_format'' (JStr ''float'')
                else Inr body_json)
               (\<lambda>body_json'. Inr (utf8_encode (json_dumps L body_json')))))"

definition rewrite_embeddings :: "pylib \<Rightarrow> string \<Rightarrow> hdrs \<Rightarrow> string \<times> hdrs" where
  "rewrite_embeddings L body hs =
     (case embeddings_rewrite L body of
        Inl e \<Rightarrow> (body, hs)
      | Inr body' \<Rightarrow>
          (body', if map_of hs ''content-length'' \<noteq> None
                  then AList.update ''content-length'' (str_of_nat (length body')) hs
                  else hs))"

text \<open>Lines 211--426: both rewrites, each behind its guard on the path and the body.\<close>

definition rewrite_request :: "pylib \<Rightarrow> string \<Rightarrow> string \<Rightarrow> hdrs \<Rightarrow> string \<times> hdrs" where
  "rewrite_request L path body hs =
     (case (if str_contains ''chat/completions'' path \<and> body \<noteq> []
            then rewrite_chat L body hs else (body, hs)) of
        (body1, hs1) \<Rightarrow>
          if path = ''embeddings'' \<and> body1 \<noteq> []
          then rewrite_embeddings L body1 hs1 else (body1, hs1))"

section \<open>The non-streaming relay (lines 641--752)\<close>

definition relay_choice :: "pylib \<Rightarrow> json \<Rightarrow> exn + json" where
  "relay_choice L choice =
     (case choice of
        JDict c \<Rightarrow>
          (case map_of c ''message'' of
             Some (JDict message) \<Rightarrow>
               (case map_of message ''tool_calls'' of
                  Some (JList tool_calls) \<Rightarrow>
                    if tool_calls \<noteq> [] then
                      and_then
                        (for_each (apply_tool_call L False (JStr ''unknown'')) tool_calls)
                        (\<lambda>tool_calls'.
                           Inr (JDict (dict_set ''message''
                                  (JDict (dict_set ''tool_calls'' (JList tool_calls') message)) c)))
                    else Inr choice
                | _ \<Rightarrow> Inr choice)
           | _ \<Rightarrow> Inr choice)
      | _ \<Rightarrow> Inr choice)"

text \<open>
  Lines 643--750, the \<open>try\<close> block: the document that is serialised at line 750, or the
  exception that reaches line 751.
\<close>

definition response_document :: "pylib \<Rightarrow> string \<Rightarrow> exn + json" where
  "response_document L content =
     and_then (utf8_decode content) (\<lambda>text.
       case json_loads L text of
         None \<Rightarrow> Inl JSONDecodeError
       | Some response_json \<Rightarrow>
           and_then (py_in ''choices'' response_json) (\<lambda>present.
             if present then
               and_then (py_getitem response_json ''choices'') (\<lambda>choices.
                 case choices of
                   JList cs \<Rightarrow>
                     and_then (for_each (relay_choice L) cs) (\<lambda>cs'.
                       py_setitem response_json ''choices'' (JList cs'))
                 | _ \<Rightarrow> Inr response_json)
             else Inr response_json))"

text \<open>Lines 641--752: the content returned to the client.\<close>

definition relay_content :: "pylib \<Rightarrow> string \<Rightarrow> int \<Rightarrow> string \<Rightarrow> string" where
  "relay_content L path status content =
     (if status = 200 \<and> str_contains ''chat/completions'' path then
        (case response_document L content of
           Inl e \<Rightarrow> content
         | Inr response_json \<Rightarrow> utf8_encode (json_dumps L response_json))
      else content)"

section \<open>The stream relay (\<open>stream_generator\<close>, lines 450--628)\<close>

text \<open>
  \<open>str.strip()\<close> removes the white space of Python at both ends: the ASCII characters
  9--13, 28--32 and the code points U+0085, U+00A0, U+1680, U+2000--U+200A, U+2028,
  U+2029, U+202F, U+205F and U+3000, here in UTF-8.
\<close>

definition whitespace :: "string list" where
  "whitespace =
     [[CHR 0x09], [CHR 0x0A], [CHR 0x0B], [CHR 0x0C], [CHR 0x0D],
      [CHR 0x1C], [CHR 0x1D], [CHR 0x1E], [CHR 0x1F], [CHR 0x20],
      [CHR 0xC2, CHR 0x85], [CHR 0xC2, CHR 0xA0], [CHR 0xE1, CHR 0x9A, CHR 0x80],
      [CHR 0xE2, CHR 0x80, CHR 0x80], [CHR 0xE2, CHR 0x80, CHR 0x81],
      [CHR 0xE2, CHR 0x80, CHR 0x82], [CHR 0xE2, CHR 0x80, CHR 0x83],
      [CHR 0xE2, CHR 0x80, CHR 0x84], [CHR 0xE2, CHR 0x80, CHR 0x85],
      [CHR 0xE2, CHR 0x80, CHR 0x86], [CHR 0xE2, CHR 0x80, CHR 0x87],
      [CHR 0xE2, CHR 0x80, CHR 0x88], [CHR 0xE2, CHR 0x80, CHR 0x89],
      [CHR 0xE2, CHR 0x80, CHR 0x8A], [CHR 0xE2, CHR 0x80, CHR 0xA8],
      [CHR 0xE2, CHR 0x80, CHR 0xA9], [CHR 0xE2, CHR 0x80, CHR 0xAF],
      [CHR 0xE2, CHR 0x81, CHR 0x9F], [CHR 0xE3, CHR 0x80, CHR 0x80]]"

function strip_left :: "string list \<Rightarrow> string \<Rightarrow> string" where
  "strip_left ws s =
     (case find (\<lambda>w. w \<noteq> [] \<and> prefix w s) ws of
        None \<Rightarrow> s
      | Some w \<Rightarrow> strip_left ws (drop (length w) s))"
  by pat_completeness auto
termination
proof (relation "measure (\<lambda>(ws, s). length s)")
  show "wf (measure (\<lambda>(ws, s). length s))"
    by simp
next
  fix ws :: "string list" and s w :: string
  assume "find (\<lambda>w. w \<noteq> [] \<and> prefix w s) ws = Some w"
  then have "w \<noteq> []" and "prefix w s"
    by (auto simp: find_Some_iff)
  then have "0 < length w" and "length w \<le> length s"
    by (auto simp: prefix_def)
  then have "length s - length w < length s"
    by arith
  then show "((ws, drop (length w) s), (ws, s)) \<in> measure (\<lambda>(ws, s). length s)"
    by simp
qed

definition strip :: "string \<Rightarrow> string" where
  "strip s = rev (strip_left (map rev whitespace) (rev (strip_left whitespace s)))"

text \<open>
  Lines 476--617, the loops over the tool calls of one \<open>delta\<close> and over the choices of
  one event. The event is changed in place, and after each update the whole event is
  serialised into \<open>line\<close> (lines 587--592): \<open>whole\<close> builds the event from the list in
  hand, \<open>seen\<close> are the elements already passed. \<open>Inl line\<close>: an exception reached line
  618 with this \<open>line\<close>; \<open>Inr\<close>: the loop ran to its end.
\<close>

fun stream_tool_calls ::
  "pylib \<Rightarrow> (json list \<Rightarrow> json) \<Rightarrow> json list \<Rightarrow> json list \<Rightarrow> string
     \<Rightarrow> string + json list \<times> string" where
  "stream_tool_calls L whole seen [] line = Inr (seen, line)"
| "stream_tool_calls L whole seen (tc # rest) line =
     (case tc of
        JDict tool_call \<Rightarrow>
          (case coerce_tool_call L False (JStr []) tool_call of
             Inl e \<Rightarrow> Inl line
           | Inr None \<Rightarrow> stream_tool_calls L whole (seen @ [tc]) rest line
           | Inr (Some tool_call') \<Rightarrow>
               stream_tool_calls L whole (seen @ [JDict tool_call']) rest
                 (''data: '' @ json_dumps L (whole (seen @ JDict tool_call' # rest))))
      | _ \<Rightarrow> stream_tool_calls L whole (seen @ [tc]) rest line)"

definition with_tool_calls :: "pydict \<Rightarrow> pydict \<Rightarrow> json list \<Rightarrow> json" where
  "with_tool_calls c delta tcs =
     JDict (dict_set ''delta'' (JDict (dict_set ''tool_calls'' (JList tcs) delta)) c)"

fun stream_choices ::
  "pylib \<Rightarrow> (json list \<Rightarrow> json) \<Rightarrow> json list \<Rightarrow> json list \<Rightarrow> string
     \<Rightarrow> string + json list \<times> string" where
  "stream_choices L whole seen [] line = Inr (seen, line)"
| "stream_choices L whole seen (choice # rest) line =
     (case choice of
        JDict c \<Rightarrow>
          (case map_of c ''delta'' of
             Some (JDict delta) \<Rightarrow>
               (case map_of delta ''tool_calls'' of
                  Some (JList tool_calls) \<Rightarrow>
                    (case stream_tool_calls L
                            (\<lambda>tcs. whole (seen @ with_tool_calls c delta tcs # rest))
                            [] tool_calls line of
                       Inl l \<Rightarrow> Inl l
                     | Inr (tcs, line') \<Rightarrow>
                         stream_choices L whole (seen @ [with_tool_calls c delta tcs]) rest line')
                | _ \<Rightarrow> stream_choices L whole (seen @ [choice]) rest line)
           | _ \<Rightarrow> stream_choices L whole (seen @ [choice]) rest line)
      | _ \<Rightarrow> stream_choices L whole (seen @ [choice]) rest line)"

definition with_choices :: "json \<Rightarrow> json list \<Rightarrow> json" where
  "with_choices data cs =
     (case data of JDict d \<Rightarrow> JDict (dict_set ''choices'' (JList cs) d) | _ \<Rightarrow> data)"

text \<open>
  Lines 468--621, the \<open>try\<close> statement run on a data line: the line afterwards. Every
  exception is caught at line 618 and leaves \<open>line\<close> as it is at that moment.
\<close>

definition rewrite_event :: "pylib \<Rightarrow> string \<Rightarrow> string" where
  "rewrite_event L line =
     (case json_loads L (drop 6 line) of
        None \<Rightarrow> line
      | Some data \<Rightarrow>
          (case py_in ''choices'' data of
             Inr True \<Rightarrow>
               (case py_getitem data ''choices'' of
                  Inr (JList choices) \<Rightarrow>
                    (case stream_choices L (with_choices data) [] choices line of
                       Inl l \<Rightarrow> l
                     | Inr (cs, l) \<Rightarrow> l)
                | _ \<Rightarrow> line)
           | _ \<Rightarrow> line))"

text \<open>Lines 467--621: what becomes of one stripped line.\<close>

definition process_line :: "pylib \<Rightarrow> string \<Rightarrow> string" where
  "process_line L line =
     (if prefix ''data: '' line \<and> line \<noteq> ''data: [DONE]''
      then rewrite_event L line else line)"

definition newline :: char where
  "newline = CHR 0x0A"

text \<open>
  Lines 462--624, the \<open>while "\n" in buffer\<close> loop: the byte strings yielded and the buffer
  left. \<open>buffer.split("\n", 1)\<close> cuts at the first newline.
\<close>

function drain :: "pylib \<Rightarrow> string \<Rightarrow> string list \<times> string" where
  "drain L buffer =
     (if newline \<in> set buffer then
        (let line = takeWhile (\<lambda>c. c \<noteq> newline) buffer;
             rest = drop 1 (dropWhile (\<lambda>c. c \<noteq> newline) buffer);
             line = strip line;
             line = process_line L line
         in (case drain L rest of
               (out, buffer') \<Rightarrow> (utf8_encode (line @ [newline]) # out, buffer')))
      else ([], buffer))"
  by pat_completeness auto
termination
proof (relation "measure (\<lambda>(L, buffer). length buffer)")
  show "wf (measure (\<lambda>(L, buffer). length buffer))"
    by simp
next
  fix L :: pylib and buffer line rest :: string
  assume "newline \<in> set buffer"
    and rest: "rest = drop 1 (dropWhile (\<lambda>c. c \<noteq> newline) buffer)"
  then have "dropWhile (\<lambda>c. c \<noteq> newline) buffer \<noteq> []"
    by (auto simp: dropWhile_eq_Nil_conv)
  moreover have "length (dropWhile (\<lambda>c. c \<noteq> newline) buffer) \<le> length buffer"
    by (rule length_dropWhile_le)
  ultimately have "length rest < length buffer"
    unfolding rest by (cases "dropWhile (\<lambda>c. c \<noteq> newline) buffer") auto
  then show "((L, rest), (L, buffer)) \<in> measure (\<lambda>(L, buffer). length buffer)"
    by simp
qed

text \<open>
  Lines 451--628: the generator, run over the chunks of \<open>aiter_bytes()\<close> with the buffer
  in hand; the result lists what it yields, in order.
\<close>

fun stream_chunks :: "pylib \<Rightarrow> string \<Rightarrow> string list \<Rightarrow> string list" where
  "stream_chunks L buffer [] = (if buffer \<noteq> [] then [utf8_encode buffer] else [])"
| "stream_chunks L buffer (chunk # chunks) =
     (case utf8_decode chunk of
        Inl e \<Rightarrow> chunk # stream_chunks L buffer chunks
      | Inr text \<Rightarrow>
          (case drain L (buffer @ text) of
             (out, buffer') \<Rightarrow> out @ stream_chunks L buffer' chunks))"

definition stream_generator :: "pylib \<Rightarrow> string list \<Rightarrow> string list" where
  "stream_generator L chunks = stream_chunks L [] chunks"




section \<open>The handler \<open>proxy_request\<close>\<close>

record inbound =
  in_path :: string
  in_method :: string
  in_query :: string
  in_headers :: hdrs
  in_body :: string

record upstream_request =
  up_method :: string
  up_url :: string
  up_headers :: hdrs
  up_content :: string

datatype client_response =
    Response string int hdrs
  | StreamingResponse "string list" int hdrs string

text \<open>Lines 188--199: the target URL, for the base URL \<open>OPENAI_BASE_URL\<close>.\<close>

definition target_url :: "string \<Rightarrow> string \<Rightarrow> string \<Rightarrow> string" where
  "target_url base path query =
     (let target_path =
            (if prefix ''api/'' path \<and> suffix ''/api/v1'' base then drop 4 path else path);
          url = base @ ''/'' @ target_path
      in if query \<noteq> [] then url @ ''?'' @ query else url)"

text \<open>Lines 444--818: the response to the client for the response the engine returned.\<close>

definition relay :: "pylib \<Rightarrow> string \<Rightarrow> response \<Rightarrow> exn + client_response" where
  "relay L path r =
     (let content_type =
            (case map_of (headers r) ''content-type'' of Some c \<Rightarrow> c | None \<Rightarrow> []);
          is_streaming =
            (str_contains ''text/event-stream'' content_type \<or> str_contains ''stream'' content_type)
      in if is_streaming then
           Inr (StreamingResponse (stream_generator L (aiter_bytes r)) (status_code r)
                  (headers r) content_type)
         else
           and_then (aread r) (\<lambda>content.
             Inr (Response (relay_content L path (status_code r) content) (status_code r)
                    (headers r))))"

text \<open>Lines 820--831: the two handlers of the outer \<open>try\<close>.\<close>

definition error_response :: "pylib \<Rightarrow> exn \<Rightarrow> client_response" where
  "error_response L e =
     (if e = RequestError
      then Response (''Proxy request failed: '' @ str_of_exn L e) 502 []
      else Response (''Internal proxy error: '' @ str_of_exn L e) 500 [])"

text \<open>
  Lines 428--831: from the request that is sent to the response for the client.
  \<open>upstream\<close> says what each \<open>client.send\<close> of a request does.
\<close>

definition forward ::
  "pylib \<Rightarrow> config \<Rightarrow> env \<Rightarrow> (upstream_request \<Rightarrow> nat \<Rightarrow> outcome) \<Rightarrow> string
     \<Rightarrow> upstream_request \<Rightarrow> client_response" where
  "forward L C E upstream path proxied_request =
     (case result (retry_with_backoff L C E (upstream proxied_request) None None) of
        Inl e \<Rightarrow> error_response L e
      | Inr r \<Rightarrow>
          (case relay L path r of
             Inl e \<Rightarrow> error_response L e
           | Inr c \<Rightarrow> c))"

text \<open>Lines 186--435: the request that is sent upstream.\<close>

definition build_request :: "pylib \<Rightarrow> string \<Rightarrow> inbound \<Rightarrow> upstream_request" where
  "build_request L base rq =
     (case rewrite_request L (in_path rq) (in_body rq) (AList.delete ''host'' (in_headers rq)) of
        (body, hs) \<Rightarrow>
          \<lparr>up_method = in_method rq,
           up_url = target_url base (in_path rq) (in_query rq),
           up_headers = hs,
           up_content = body\<rparr>)"

definition proxy_request ::
  "pylib \<Rightarrow> config \<Rightarrow> env \<Rightarrow> string \<Rightarrow> (upstream_request \<Rightarrow> nat \<Rightarrow> outcome) \<Rightarrow> inbound
     \<Rightarrow> client_response" where
  "proxy_request L C E base upstream rq =
     forward L C E upstream (in_path rq) (build_request L base rq)"

section \<open>Documents up to their \<open>arguments\<close> strings\<close>



section \<open>Sample inputs\<close>

text \<open>
  Values of the library functions at the strings and documents of the examples below:
  \<open>int\<close>, \<open>json.loads\<close> and \<open>json.dumps\<close> (with its default separators) as Python
  computes them there.
\<close>

definition sample_int :: "string \<Rightarrow> int option" where
  "sample_int s =
     map_of [(''5'', 5), (''10'', 10), (''30'', 30), (''1700000090'', 1700000090),
             (''1700000060000'', 1700000060000)] s"

definition chat_body :: string where
  \<open>chat_body = ''{"model": "m", "prompt_cache_key": "k", "logprobs": true, "top_logprobs": 2, "parallel_tool_calls": "yes", "stream": false}''\<close>

definition chat_body_doc :: pydict where
  "chat_body_doc = [(''model'', JStr ''m''), (''prompt_cache_key'', JStr ''k''),
     (''logprobs'', JBool True), (''top_logprobs'', JInt 2),
     (''parallel_tool_calls'', JStr ''yes''), (''stream'', JBool False)]"

definition null_tools_body :: string where
  \<open>null_tools_body = ''{"logprobs": true, "tools": null}''\<close>

text \<open>A tool call with the given function name and arguments string.\<close>

definition tool_call_of :: "string \<Rightarrow> string \<Rightarrow> pydict" where
  "tool_call_of name arguments =
     [(''id'', JStr ''call_1''), (''type'', JStr ''function''),
      (''function'', JDict [(''name'', JStr name), (''arguments'', JStr arguments)])]"

text \<open>The escapes \<open>json.dumps\<close> writes inside a string, for \<open>"\<close> and \<open>\\<close>.\<close>

definition escape :: "string \<Rightarrow> string" where
  "escape s = concat (map (\<lambda>c. if c = CHR 0x22 \<or> c = CHR 0x5C then [CHR 0x5C, c] else [c]) s)"

text \<open>
  A request with a \<open>read_file\<close> and an \<open>edit_file\<close> tool call, a non-streaming response
  with a \<open>read_file\<close> tool call, a response without tool calls, and the payload of a
  streaming event, each with the document it parses to; the names ending in \<open>_sent\<close> are
  the documents after the rewrite and their serialisations.
\<close>

definition tools_body :: string where
  \<open>tools_body =
     ''{"messages": [{"role": "assistant", "tool_calls": [{"id": "call_1", "type": "function", "function": {"name": "read_file", "arguments": "'' @
     escape ''{"start_line":"5","end_line":"10"}'' @
     ''"}}, {"id": "call_1", "type": "function", "function": {"name": "edit_file", "arguments": "'' @
     escape ''{"start_line":"5","end_line":"10"}'' @ ''"}}]}]}''\<close>

definition tools_doc :: pydict where
  \<open>tools_doc =
     [(''messages'', JList [JDict [(''role'', JStr ''assistant''), (''tool_calls'',
     JList [JDict (tool_call_of ''read_file'' ''{"start_line":"5","end_line":"10"}''),
     JDict (tool_call_of ''edit_file'' ''{"start_line":"5","end_line":"10"}'')])]])]\<close>

definition tools_doc_sent :: pydict where
  \<open>tools_doc_sent =
     [(''messages'', JList [JDict [(''role'', JStr ''assistant''), (''tool_calls'',
     JList [JDict (tool_call_of ''read_file'' ''{"start_line": 5, "end_line": 10}''),
     JDict (tool_call_of ''edit_file'' ''{"start_line":"5","end_line":"10"}'')])]])]\<close>

definition tools_body_sent :: string where
  \<open>tools_body_sent =
     ''{"messages": [{"role": "assistant", "tool_calls": [{"id": "call_1", "type": "function", "function": {"name": "read_file", "arguments": "'' @
     escape ''{"start_line": 5, "end_line": 10}'' @
     ''"}}, {"id": "call_1", "type": "function", "function": {"name": "edit_file", "arguments": "'' @
     escape ''{"start_line":"5","end_line":"10"}'' @ ''"}}]}]}''\<close>

definition reply_body :: string where
  \<open>reply_body =
     ''{"id":"r1","choices":[{"index":0,"message":{"role":"assistant","content":"caf'' @
     [CHR 0xC3, CHR 0xA9] @
     ''","tool_calls":[{"id":"call_1","type":"function","function":{"name":"read_file","arguments":"'' @
     escape ''{"start_line":"5","end_line":"10"}'' @ ''"}}]}}]}''\<close>

definition reply_doc :: pydict where
  \<open>reply_doc =
     [(''id'', JStr ''r1''), (''choices'', JList [JDict [(''index'', JInt 0), (''message'',
     JDict [(''role'', JStr ''assistant''), (''content'', JStr (''caf'' @ [CHR 0xC3,
     CHR 0xA9])), (''tool_calls'',
     JList [JDict (tool_call_of ''read_file'' ''{"start_line":"5","end_line":"10"}'')])])]])]\<close>

definition reply_doc_sent :: pydict where
  \<open>reply_doc_sent =
     [(''id'', JStr ''r1''), (''choices'', JList [JDict [(''index'', JInt 0), (''message'',
     JDict [(''role'', JStr ''assistant''), (''content'', JStr (''caf'' @ [CHR 0xC3,
     CHR 0xA9])), (''tool_calls'',
     JList [JDict (tool_call_of ''read_file'' ''{"start_line": 5, "end_line": 10}'')])])]])]\<close>

definition reply_body_sent :: string where
  \<open>reply_body_sent =
     ''{"id": "r1", "choices": [{"index": 0, "message": {"role": "assistant", "content": "caf'' @
     [CHR 0x5C] @
     ''u00e9", "tool_calls": [{"id": "call_1", "type": "function", "function": {"name": "read_file", "arguments": "'' @
     escape ''{"start_line": 5, "end_line": 10}'' @ ''"}}]}}]}''\<close>

definition plain_reply :: string where
  \<open>plain_reply =
     ''{"choices":[{"message":{"content":"caf'' @ [CHR 0xC3, CHR 0xA9] @ ''"}}]}''\<close>

definition plain_reply_doc :: pydict where
  \<open>plain_reply_doc =
     [(''choices'', JList [JDict [(''message'', JDict [(''content'', JStr (''caf'' @ [CHR 0xC3,
     CHR 0xA9]))])]])]\<close>

definition plain_reply_sent :: string where
  \<open>plain_reply_sent =
     ''{"choices": [{"message": {"content": "caf'' @ [CHR 0x5C] @ ''u00e9"}}]}''\<close>

definition event_json :: string where
  \<open>event_json =
     ''{"choices":[{"delta":{"tool_calls":[{"function":{"name":"read_file","arguments":"'' @
     escape ''{"start_line":"5"}'' @ ''"}}]}}]}''\<close>

definition event_doc :: pydict where
  \<open>event_doc =
     [(''choices'', JList [JDict [(''delta'', JDict [(''tool_calls'',
     JList [JDict [(''function'', JDict [(''name'', JStr ''read_file''), (''arguments'',
     JStr ''{"start_line":"5"}'')])]])])]])]\<close>

definition event_doc_sent :: pydict where
  \<open>event_doc_sent =
     [(''choices'', JList [JDict [(''delta'', JDict [(''tool_calls'',
     JList [JDict [(''function'', JDict [(''name'', JStr ''read_file''), (''arguments'',
     JStr ''{"start_line": 5}'')])]])])]])]\<close>

definition event_json_sent :: string where
  \<open>event_json_sent =
     ''{"choices": [{"delta": {"tool_calls": [{"function": {"name": "read_file", "arguments": "'' @
     escape ''{"start_line": 5}'' @ ''"}}]}}]}''\<close>

definition sample_loads :: "string \<Rightarrow> json option" where
  \<open>sample_loads s = map_of
     [(chat_body, JDict chat_body_doc),
      (null_tools_body, JDict [(''logprobs'', JBool True), (''tools'', JNull)]),
      (''{"start_line":"5","end_line":"10"}'',
         JDict [(''start_line'', JStr ''5''), (''end_line'', JStr ''10'')]),
      (''{"start_line": 5, "end_line": 10}'',
         JDict [(''start_line'', JInt 5), (''end_line'', JInt 10)]),
      (''{"start_line":"5"}'', JDict [(''start_line'', JStr ''5'')]),
      (''{"start_line": 5}'', JDict [(''start_line'', JInt 5)]),
      (tools_body, JDict tools_doc),
      (reply_body, JDict reply_doc),
      (plain_reply, JDict plain_reply_doc),
      (event_json, JDict event_doc)] s\<close>

definition sample_dumps :: "json \<Rightarrow> string" where
  \<open>sample_dumps v = (case map_of
     [(JDict [(''model'', JStr ''m''), (''stream'', JBool False)],
         ''{"model": "m", "stream": false}''),
      (JDict [(''start_line'', JInt 5), (''end_line'', JInt 10)],
         ''{"start_line": 5, "end_line": 10}''),
      (JDict [(''start_line'', JInt 5)], ''{"start_line": 5}''),
      (JDict tools_doc_sent, tools_body_sent),
      (JDict reply_doc_sent, reply_body_sent),
      (JDict plain_reply_doc, plain_reply_sent),
      (JDict event_doc_sent, event_json_sent)] v of Some s \<Rightarrow> s | None \<Rightarrow> [])\<close>

definition sample_lib :: pylib where
  "sample_lib = \<lparr>json_loads = sample_loads, json_dumps = sample_dumps,
                  int_of_str = sample_int, str_of_exn = (\<lambda>e. ''error'')\<rparr>"

definition sample_env :: env where
  "sample_env = \<lparr>clock = (\<lambda>k. 1700000000), jitter = (\<lambda>k. 1 / 2)\<rparr>"

definition sample_base :: string where
  "sample_base = ''https://api.venice.ai/api/v1''"




definition lockout_response :: response where
  \<open>lockout_response = \<lparr>status_code = 429, headers = [],
     aread = Inr ''{"error": "Too many failed attempts, retry later"}'', aiter_bytes = []\<rparr>\<close>

definition undecodable_response :: response where
  "undecodable_response =
     \<lparr>status_code = 429, headers = [(''x-ratelimit-reset-requests'', ''30'')],
      aread = Inr [CHR 0xFF, CHR 0xFE], aiter_bytes = []\<rparr>"

definition bad_post :: inbound where
  "bad_post = \<lparr>in_path = ''chat/completions'', in_method = ''POST'', in_query = [],
     in_headers = [(''host'', ''localhost:9000''), (''content-length'', ''8'')],
     in_body = ''not json''\<rparr>"

definition plain_ok :: response where
  "plain_ok = \<lparr>status_code = 200, headers = [(''content-type'', ''text/plain'')],
     aread = Inr ''ok'', aiter_bytes = []\<rparr>"

section \<open>The sample values\<close>

lemmas sample_texts =
  chat_body_def null_tools_body_def tools_body_def reply_body_def plain_reply_def
  event_json_def escape_def




lemma sample_loads_values:
  \<open>json_loads sample_lib chat_body = Some (JDict chat_body_doc)\<close>
  \<open>json_loads sample_lib null_tools_body =
     Some (JDict [(''logprobs'', JBool True), (''tools'', JNull)])\<close>
  \<open>json_loads sample_lib ''{"start_line":"5","end_line":"10"}'' =
     Some (JDict [(''start_line'', JStr ''5''), (''end_line'', JStr ''10'')])\<close>
  \<open>json_loads sample_lib ''{"start_line": 5, "end_line": 10}'' =
     Some (JDict [(''start_line'', JInt 5), (''end_line'', JInt 10)])\<close>
  \<open>json_loads sample_lib ''{"start_line":"5"}'' = Some (JDict [(''start_line'', JStr ''5'')])\<close>
  \<open>json_loads sample_lib ''{"start_line": 5}'' = Some (JDict [(''start_line'', JInt 5)])\<close>
  \<open>json_loads sample_lib tools_body = Some (JDict tools_doc)\<close>
  \<open>json_loads sample_lib reply_body = Some (JDict reply_doc)\<close>
  \<open>json_loads sample_lib plain_reply = Some (JDict plain_reply_doc)\<close>
  \<open>json_loads sample_lib event_json = Some (JDict event_doc)\<close>
  \<open>json_loads sample_lib ''not json'' = None\<close>
  \<open>json_loads sample_lib ''ok'' = None\<close>
  by (simp_all add: sample_lib_def sample_loads_def sample_texts)


section \<open>Rate-limit header interpretation\<close>




section \<open>The attempt loop\<close>

declare retry_loop.simps [simp del]

lemma retry_loop_exhausted:
  "\<not> int attempt \<le> mr \<Longrightarrow>
   retry_loop L C E func mr bd attempt slept =
     \<lparr>result = Inl Exception, sleeps = slept, calls = attempt\<rparr>"
  by (subst retry_loop.simps) simp

lemma retry_loop_return:
  "int attempt \<le> mr \<Longrightarrow> attempt_body L C E func mr bd attempt = Return r \<Longrightarrow>
   retry_loop L C E func mr bd attempt slept =
     \<lparr>result = Inr r, sleeps = slept, calls = Suc attempt\<rparr>"
  by (subst retry_loop.simps) simp


text \<open>A run of attempts that all end in a sleep, from \<open>attempt\<close> up to \<open>N\<close>.\<close>

lemma retry_loop_continue:
  assumes "\<And>k. attempt \<le> k \<Longrightarrow> k < N \<Longrightarrow>
             attempt_body L C E func mr bd k = SleepContinue (d k)"
    and "attempt \<le> N" and "int N \<le> mr"
  shows "retry_loop L C E func mr bd attempt slept =
         retry_loop L C E func mr bd N (slept @ map d [attempt..<N])"
  using assms
proof (induction "N - attempt" arbitrary: attempt slept)
  case 0
  then show ?case by simp
next
  case (Suc n)
  then have lt: "attempt < N" by simp
  have body: "attempt_body L C E func mr bd attempt = SleepContinue (d attempt)"
    using Suc.prems(1) lt by simp
  have "retry_loop L C E func mr bd attempt slept =
        retry_loop L C E func mr bd (Suc attempt) (slept @ [d attempt])"
    using lt Suc.prems(3) body by (subst retry_loop.simps) simp
  also have "\<dots> = retry_loop L C E func mr bd N ((slept @ [d attempt]) @ map d [Suc attempt..<N])"
    using Suc by (intro Suc.hyps(1)) auto
  finally show ?case using lt by (simp add: upt_conv_Cons)
qed

lemma process_429_sleep:
  "process_429 L C E mr bd attempt r = Inr (Some delay) \<Longrightarrow> int attempt < mr"
  by (auto simp: process_429_def split: sum.splits if_splits option.splits)

lemma attempt_body_sleep:
  "attempt_body L C E func mr bd attempt = SleepContinue delay \<Longrightarrow> int attempt < mr"
  by (auto simp: attempt_body_def split: outcome.splits if_splits sum.splits option.splits
      dest: process_429_sleep)

text \<open>The loop never calls \<open>func\<close> more than \<open>max_retries + 1\<close> times, and sleeps once
  before each call but the first.\<close>

lemma retry_loop_calls:
  "int attempt \<le> mr \<Longrightarrow>
   calls (retry_loop L C E func mr bd attempt slept) \<le> nat (mr + 1)
   \<and> length (sleeps (retry_loop L C E func mr bd attempt slept)) + Suc attempt
       = length slept + calls (retry_loop L C E func mr bd attempt slept)"
proof (induction L C E func mr bd attempt slept rule: retry_loop.induct)
  case (1 L C E func mr bd attempt slept)
  note le = \<open>int attempt \<le> mr\<close>
  show ?case
  proof (cases "attempt_body L C E func mr bd attempt")
    case (Return r)
    then show ?thesis using le by (subst (1 2 3) retry_loop.simps) simp
  next
    case (Reraise e)
    then show ?thesis using le by (subst (1 2 3) retry_loop.simps) simp
  next
    case (SleepContinue delay)
    have eq: "retry_loop L C E func mr bd attempt slept =
          retry_loop L C E func mr bd (Suc attempt) (slept @ [delay])"
      using le SleepContinue by (subst retry_loop.simps) simp
    have "int (Suc attempt) \<le> mr"
      using attempt_body_sleep[OF SleepContinue] by simp
    from "1.IH"[OF le SleepContinue this] show ?thesis
      unfolding eq by simp
  qed
qed

subsection \<open>The lockout variant\<close>

lemma lockout_body:
  assumes "func k = Returns r" and "lockout r"
  shows "attempt_body L C E func mr bd k =
     (if int k < mr then SleepContinue (real_of_int (RATE_LIMIT_WAIT C)) else Return r)"
  using assms
  by (auto simp: lockout_def attempt_body_def process_429_def utf8_decode_def split: sum.splits)

lemma retry_loop_lockout:
  assumes "0 \<le> mr" and "\<forall>k \<le> nat mr. \<exists>r. func k = Returns r \<and> lockout r"
  shows "\<exists>r. func (nat mr) = Returns r \<and>
     retry_loop L C E func mr bd 0 [] =
       \<lparr>result = Inr r, sleeps = replicate (nat mr) (real_of_int (RATE_LIMIT_WAIT C)),
        calls = nat mr + 1\<rparr>"
proof -
  let ?w = "real_of_int (RATE_LIMIT_WAIT C)"
  from assms obtain r where r: "func (nat mr) = Returns r" "lockout r"
    by blast
  have "retry_loop L C E func mr bd 0 [] =
        retry_loop L C E func mr bd (nat mr) ([] @ map (\<lambda>k. ?w) [0..<nat mr])"
  proof (rule retry_loop_continue)
    fix k assume "k < nat mr"
    moreover from this assms obtain r' where "func k = Returns r'" "lockout r'"
      by (meson less_imp_le)
    ultimately show "attempt_body L C E func mr bd k = SleepContinue ?w"
      by (simp add: lockout_body)
  qed (use assms in auto)
  also have "\<dots> = \<lparr>result = Inr r, sleeps = replicate (nat mr) ?w, calls = nat mr + 1\<rparr>"
    using r assms(1) by (simp add: retry_loop_return lockout_body map_replicate_const)
  finally show ?thesis using r by blast
qed

text \<open>
  Claim C5. With maximum retry count \<open>N\<close> the engine calls \<open>func\<close> at most \<open>N + 1\<close> times
  (attempts \<open>0..N\<close>) and sleeps once before each retry. When every attempt returns the
  lockout 429, each of the \<open>N\<close> retries is preceded by a sleep of \<open>RATE_LIMIT_WAIT\<close> seconds,
  whatever the attempt number, and the response of the last attempt is returned as it
  is.
\<close>

theorem retry_budget_lockout:
  "calls (retry_with_backoff L C E func (Some max_retries) base_delay) \<le> nat (max_retries + 1)
   \<and> length (sleeps (retry_with_backoff L C E func (Some max_retries) base_delay))
       = calls (retry_with_backoff L C E func (Some max_retries) base_delay) - 1
   \<and> (0 \<le> max_retries \<longrightarrow> (\<forall>k \<le> nat max_retries. \<exists>r. func k = Returns r \<and> lockout r) \<longrightarrow>
        (\<exists>r. func (nat max_retries) = Returns r
           \<and> retry_with_backoff L C E func (Some max_retries) base_delay =
               \<lparr>result = Inr r,
                sleeps = replicate (nat max_retries) (real_of_int (RATE_LIMIT_WAIT C)),
                calls = nat max_retries + 1\<rparr>))"
proof (intro conjI impI)
  let ?bd = "case base_delay of None \<Rightarrow> BASE_RETRY_DELAY C | Some d \<Rightarrow> d"
  have eq: "retry_with_backoff L C E func (Some max_retries) base_delay =
            retry_loop L C E func max_retries ?bd 0 []"
    by (simp add: retry_with_backoff_def)
  show "calls (retry_with_backoff L C E func (Some max_retries) base_delay) \<le> nat (max_retries + 1)"
    unfolding eq
    by (cases "0 \<le> max_retries")
      (use retry_loop_calls[of 0 max_retries] in \<open>auto simp: retry_loop_exhausted\<close>)
  show "length (sleeps (retry_with_backoff L C E func (Some max_retries) base_delay))
       = calls (retry_with_backoff L C E func (Some max_retries) base_delay) - 1"
    unfolding eq
  proof (cases "0 \<le> max_retries")
    case True
    then show "length (sleeps (retry_loop L C E func max_retries ?bd 0 []))
       = calls (retry_loop L C E func max_retries ?bd 0 []) - 1"
      using retry_loop_calls[of 0 max_retries L C E func ?bd "[]"] by auto
  next
    case False
    then show "length (sleeps (retry_loop L C E func max_retries ?bd 0 []))
       = calls (retry_loop L C E func max_retries ?bd 0 []) - 1"
      by (simp add: retry_loop_exhausted)
  qed
  assume "0 \<le> max_retries" "\<forall>k \<le> nat max_retries. \<exists>r. func k = Returns r \<and> lockout r"
  then show "\<exists>r. func (nat max_retries) = Returns r
           \<and> retry_with_backoff L C E func (Some max_retries) base_delay =
               \<lparr>result = Inr r,
                sleeps = replicate (nat max_retries) (real_of_int (RATE_LIMIT_WAIT C)),
                calls = nat max_retries + 1\<rparr>"
    unfolding eq by (rule retry_loop_lockout)
qed

lemma lockout_sample: "lockout lockout_response"
  by (simp add: lockout_def lockout_response_def)

text \<open>Three lockout responses in a row with \<open>max_retries = 2\<close> and the default wait of 30
  seconds: three calls, two sleeps of 30 seconds, and the 429 is returned.\<close>

theorem retry_budget_lockout_witness:
  "retry_with_backoff sample_lib default_config sample_env
       (\<lambda>k. Returns lockout_response) (Some 2) None =
     \<lparr>result = Inr lockout_response, sleeps = [30, 30], calls = 3\<rparr>"
  using retry_budget_lockout[of sample_lib default_config sample_env
          "\<lambda>k. Returns lockout_response" 2 None]
  by (simp add: lockout_sample default_config_def numeral_2_eq_2)

subsection \<open>Exceptions while a 429 is processed\<close>

lemma process_429_raises:
  "(\<exists>e. process_429 L C E mr bd attempt r = Inl e)
     \<longleftrightarrow> ((\<exists>e. aread r = Inl e) \<or> (\<exists>b. aread r = Inr b \<and> \<not> utf8_valid b))"
  by (auto simp: process_429_def utf8_decode_def split: sum.splits option.splits)

text \<open>
  Claim C10. When the block that processes a 429 raises (it does exactly when reading
  the body raises or the body does not decode; a header that \<open>int\<close> rejects is handled
  inside the block), the loop returns that response at once: no sleep is added and
  \<open>func\<close> is not called again, whatever remains of the retry budget.
\<close>

theorem exception_on_429_returns:
  assumes "func attempt = Returns r" and "status_code r = 429" and "int attempt \<le> max_retries"
  shows "(\<forall>e. process_429 L C E max_retries base_delay attempt r = Inl e \<longrightarrow>
            retry_loop L C E func max_retries base_delay attempt slept =
              \<lparr>result = Inr r, sleeps = slept, calls = Suc attempt\<rparr>)
      \<and> ((\<exists>e. process_429 L C E max_retries base_delay attempt r = Inl e)
            \<longleftrightarrow> ((\<exists>e. aread r = Inl e) \<or> (\<exists>b. aread r = Inr b \<and> \<not> utf8_valid b)))"
proof (intro conjI allI impI)
  fix e assume "process_429 L C E max_retries base_delay attempt r = Inl e"
  then have "attempt_body L C E func max_retries base_delay attempt = Return r"
    using assms(1,2) by (simp add: attempt_body_def)
  then show "retry_loop L C E func max_retries base_delay attempt slept =
              \<lparr>result = Inr r, sleeps = slept, calls = Suc attempt\<rparr>"
    using assms(3) by (rule retry_loop_return[rotated])
next
  show "(\<exists>e. process_429 L C E max_retries base_delay attempt r = Inl e)
            \<longleftrightarrow> ((\<exists>e. aread r = Inl e) \<or> (\<exists>b. aread r = Inr b \<and> \<not> utf8_valid b))"
    by (rule process_429_raises)
qed

text \<open>A 429 whose body is not UTF-8, at the first of six attempts: returned without a
  sleep, although its header names a wait of 30 seconds.\<close>

theorem exception_on_429_returns_witness:
  "retry_with_backoff sample_lib default_config sample_env
       (\<lambda>k. Returns undecodable_response) None None =
     \<lparr>result = Inr undecodable_response, sleeps = [], calls = 1\<rparr>"
  using exception_on_429_returns[of "\<lambda>k. Returns undecodable_response" 0 undecodable_response 5
          sample_lib default_config sample_env 1 "[]"]
  by (simp add: undecodable_response_def retry_with_backoff_def default_config_def)

subsection \<open>Transport errors\<close>





section \<open>The request payload rewriter\<close>

lemma and_then_simps [simp]:
  "and_then (Inl e) f = Inl e"
  "and_then (Inr v) f = f v"
  by (simp_all add: and_then_def)




lemma map_of_dict_pop: "map_of (dict_pop k d) k' = (if k' = k then None else map_of d k')"
  by (simp add: dict_pop_def delete_conv')

lemma has_key_dict_pop: "has_key (dict_pop k d) k' \<longleftrightarrow> k' \<noteq> k \<and> has_key d k'"
  by (simp add: has_key_def map_of_dict_pop)


lemma map_of_dict_set: "map_of (dict_set k v d) k' = (if k' = k then Some v else map_of d k')"
  by (simp add: dict_set_def update_conv')


lemma has_key_dict_set: "has_key (dict_set k v d) k' \<longleftrightarrow> k' = k \<or> has_key d k'"
  by (simp add: has_key_def map_of_dict_set)










lemma chat_rewrite_parse_failure:
  "(\<exists>e. utf8_decode b = Inl e) \<or> json_loads L b = None \<Longrightarrow> isl (chat_rewrite L b)"
  by (cases "utf8_decode b")
    (auto simp: chat_rewrite_def chat_document_def utf8_decode_def split: if_splits)

lemma embeddings_rewrite_parse_failure:
  "(\<exists>e. utf8_decode b = Inl e) \<or> json_loads L b = None \<Longrightarrow> isl (embeddings_rewrite L b)"
  by (cases "utf8_decode b")
    (auto simp: embeddings_rewrite_def utf8_decode_def split: if_splits)

lemma rewrite_request_failure:
  assumes "str_contains ''chat/completions'' path \<longrightarrow> isl (chat_rewrite L body)"
    and "path = ''embeddings'' \<longrightarrow> isl (embeddings_rewrite L body)"
  shows "rewrite_request L path body hs = (body, hs)"
  using assms
  by (auto simp: rewrite_request_def rewrite_chat_def rewrite_embeddings_def isl_def)

text \<open>
  Claim C8. When, on each rewritten route the request is on, the rewrite raises (as it
  does whenever the body does not decode or does not parse as JSON), the request sent
  upstream carries the original body and the headers of the request without \<open>host\<close>, and
  the response to the client is the one the handler computes for that request: the
  failure itself produces no response.
\<close>

theorem rewrite_failure_forwards_original:
  "((str_contains ''chat/completions'' (in_path rq) \<longrightarrow> isl (chat_rewrite L (in_body rq)))
     \<and> (in_path rq = ''embeddings'' \<longrightarrow> isl (embeddings_rewrite L (in_body rq)))
    \<longrightarrow> build_request L base rq =
          \<lparr>up_method = in_method rq,
           up_url = target_url base (in_path rq) (in_query rq),
           up_headers = AList.delete ''host'' (in_headers rq),
           up_content = in_body rq\<rparr>
      \<and> proxy_request L C E base upstream rq =
          forward L C E upstream (in_path rq)
            \<lparr>up_method = in_method rq,
             up_url = target_url base (in_path rq) (in_query rq),
             up_headers = AList.delete ''host'' (in_headers rq),
             up_content = in_body rq\<rparr>)
   \<and> ((\<exists>e. utf8_decode body = Inl e) \<or> json_loads L body = None
        \<longrightarrow> isl (chat_rewrite L body) \<and> isl (embeddings_rewrite L body))"
  by (auto simp: build_request_def proxy_request_def rewrite_request_failure
      chat_rewrite_parse_failure embeddings_rewrite_parse_failure)

text \<open>A body that is no JSON, posted to the chat-completions route: upstream receives it
  as it is, and its 200 is what the client gets.\<close>

theorem rewrite_failure_forwards_original_witness:
  "up_content (build_request sample_lib sample_base bad_post) = ''not json''
   \<and> up_headers (build_request sample_lib sample_base bad_post) = [(''content-length'', ''8'')]
   \<and> proxy_request sample_lib default_config sample_env sample_base
        (\<lambda>q k. if up_content q = ''not json'' then Returns plain_ok else Raises Exception)
        bad_post = Response ''ok'' 200 [(''content-type'', ''text/plain'')]"
proof -
  have none: "json_loads sample_lib ''not json'' = None" "json_loads sample_lib ''ok'' = None"
    by (rule sample_loads_values)+
  have fails: "isl (chat_rewrite sample_lib (in_body bad_post))"
    using rewrite_failure_forwards_original[of bad_post sample_lib sample_base default_config
        sample_env "\<lambda>q k. Raises Exception" "''not json''"] none
    by (simp add: bad_post_def)
  have route: "in_path bad_post \<noteq> ''embeddings''"
    by (simp add: bad_post_def)
  note sent = rewrite_failure_forwards_original[of bad_post sample_lib sample_base default_config
        sample_env "\<lambda>q k. if up_content q = ''not json'' then Returns plain_ok else Raises Exception"
        "''not json''"]
  have body: "attempt_body sample_lib default_config sample_env (\<lambda>k. Returns plain_ok) 5 1 0 = Return plain_ok"
    by (simp add: attempt_body_def plain_ok_def)
  have run: "retry_with_backoff sample_lib default_config sample_env (\<lambda>k. Returns plain_ok) None None =
      \<lparr>result = Inr plain_ok, sleeps = [], calls = 1\<rparr>"
    using retry_loop_return[OF _ body, of "[]"]
    by (simp add: retry_with_backoff_def default_config_def)
  have relayed: "relay sample_lib ''chat/completions'' plain_ok =
      Inr (Response ''ok'' 200 [(''content-type'', ''text/plain'')])"
    using none
    by (simp add: relay_def plain_ok_def relay_content_def response_document_def utf8_decode_def)
  show ?thesis
    using sent fails route run relayed
    by (simp add: forward_def) (simp add: bad_post_def)
qed

section \<open>The coercion of \<open>start_line\<close> and \<open>end_line\<close>\<close>








section \<open>The stream relay: framing\<close>

declare drain.simps [simp del]
declare strip_left.simps [simp del]
















section \<open>Which tool calls are coerced\<close>






















section \<open>What the relays preserve\<close>

subsection \<open>Replacing a value in a document\<close>















subsection \<open>The stream relay rewrites an event up to its \<open>arguments\<close>\<close>





subsection \<open>The sample reply and the sample event\<close>







end
